theory Spec2Isabelle
  imports Complex_Main "HOL-Library.Sublist"
begin

section \<open>Sardonic: the sequence planner, the effect pipeline and the overlay compositor\<close>

text \<open>
  A shallow embedding of \<^verbatim>\<open>src/sardonic.js\<close>. JavaScript numbers are IEEE doubles; they
  are modelled here as exact reals, so \<open>NaN\<close>, infinities and rounding are outside the
  model. \<^verbatim>\<open>Math.random()\<close> is a supply of draws \<open>rnd :: nat \<Rightarrow> real\<close> read at an
  explicit position that advances with every call; its contract is \<open>0 \<le> rnd i < 1\<close>.
  Exceptions are values of a sum type, and a loop that may run forever returns \<open>None\<close>.
\<close>

subsection \<open>Errors\<close>

text \<open>
  The exceptions the modelled code can raise: reading a property of \<^verbatim>\<open>undefined\<close>, or
  passing it to \<^verbatim>\<open>path.basename\<close>, throws a \<^verbatim>\<open>TypeError\<close>.
\<close>

datatype error = TypeError

subsection \<open>The instance and its constructor\<close>

record options =
  opt_framePattern :: "string option"
  opt_frameDir :: "string option"
  opt_output :: "string option"
  opt_size :: "real option"
  opt_duration :: "real option"
  opt_maxFrameDuration :: "real option"
  opt_minFrameDuration :: "real option"
  opt_maxRotation :: "real option"
  opt_glitchLevel :: "int option"

record sardonic =
  framePattern :: string
  frameDir :: string
  outputFile :: string
  size' :: real
  totalDuration :: real
  maxFrameDuration :: real
  minFrameDuration :: real
  maxRotation :: real
  glitchLevel :: int
  frames :: "string list"

text \<open>
  \<^verbatim>\<open>a || d\<close> on an option field: a missing field, the number 0 and the empty string are
  falsy and give the default.
\<close>

definition orNum :: "'a::zero option \<Rightarrow> 'a \<Rightarrow> 'a" where
  "orNum a d = (case a of None \<Rightarrow> d | Some v \<Rightarrow> if v = 0 then d else v)"

definition orStr :: "string option \<Rightarrow> string \<Rightarrow> string" where
  "orStr a d = (case a of None \<Rightarrow> d | Some v \<Rightarrow> if v = [] then d else v)"

definition constructor :: "options \<Rightarrow> sardonic" where
  "constructor opts =
     \<lparr> framePattern = orStr (opt_framePattern opts) ''w-*.jpg'',
       frameDir = orStr (opt_frameDir opts) ''./samples'',
       outputFile = orStr (opt_output opts) ''sardonic.mp4'',
       size' = orNum (opt_size opts) 320,
       totalDuration = orNum (opt_duration opts) 15,
       maxFrameDuration = orNum (opt_maxFrameDuration opts) 2,
       minFrameDuration = orNum (opt_minFrameDuration opts) (1 / 10),
       maxRotation = orNum (opt_maxRotation opts) 15,
       glitchLevel = orNum (opt_glitchLevel opts) 0,
       frames = [] \<rparr>"

subsection \<open>generateSequence\<close>

record event =
  frame :: string
  duration :: real
  rotation :: real
  frameName :: string

text \<open>\<^verbatim>\<open>path.basename\<close> on POSIX: trailing separators are dropped, then the last component is taken.\<close>

definition basename :: "string \<Rightarrow> string" where
  "basename p = rev (takeWhile (\<lambda>c. c \<noteq> CHR ''/'') (dropWhile (\<lambda>c. c = CHR ''/'') (rev p)))"

definition randomDuration :: "sardonic \<Rightarrow> real \<Rightarrow> real" where
  "randomDuration s r =
     (let range = maxFrameDuration s - minFrameDuration s
      in minFrameDuration s + r * range)"

definition randomRotation :: "sardonic \<Rightarrow> real \<Rightarrow> real" where
  "randomRotation s r = (r * 2 - 1) * maxRotation s"

text \<open>
  The duration chosen by one iteration of the loop, with the position of the random supply
  after it: \<^verbatim>\<open>randomDuration\<close> is called only when more than \<open>maxFrameDuration\<close> remains.
\<close>

definition nextDuration :: "sardonic \<Rightarrow> (nat \<Rightarrow> real) \<Rightarrow> nat \<Rightarrow> real \<Rightarrow> real \<times> nat" where
  "nextDuration s rnd k currentTime =
     (let remaining = totalDuration s - currentTime
      in if remaining \<le> maxFrameDuration s then (remaining, k)
         else (let d = randomDuration s (rnd k)
               in if currentTime + d > totalDuration s
                  then (totalDuration s - currentTime, Suc k)
                  else (d, Suc k)))"

text \<open>
  \<^verbatim>\<open>this.frames[Math.floor(Math.random() * this.frames.length)]\<close>: an index outside the
  array reads \<^verbatim>\<open>undefined\<close>, here \<open>None\<close>.
\<close>

definition pickFrame :: "sardonic \<Rightarrow> real \<Rightarrow> string option" where
  "pickFrame s r =
     (let i = \<lfloor>r * real (length (frames s))\<rfloor>
      in if 0 \<le> i \<and> nat i < length (frames s) then Some (frames s ! nat i) else None)"

text \<open>
  The loop of \<^verbatim>\<open>generateSequence\<close>. The accumulator pairs every pushed event with the value
  \<^verbatim>\<open>currentTime\<close> had when it was pushed (the event's start time; the source keeps it only
  in the loop variable). \<^verbatim>\<open>path.basename(undefined)\<close> throws a \<^verbatim>\<open>TypeError\<close>.
\<close>

partial_function (option) planLoop ::
  "sardonic \<Rightarrow> (nat \<Rightarrow> real) \<Rightarrow> nat \<Rightarrow> real \<Rightarrow> (real \<times> event) list \<Rightarrow> (error + (real \<times> event) list) option"
where
  "planLoop s rnd k currentTime sequence =
     (if currentTime < totalDuration s then
        (case nextDuration s rnd k currentTime of
           (d, k1) \<Rightarrow>
             (case pickFrame s (rnd k1) of
                None \<Rightarrow> Some (Inl TypeError)
              | Some f \<Rightarrow>
                  planLoop s rnd (Suc (Suc k1)) (currentTime + d)
                    (sequence @ [(currentTime,
                       \<lparr> frame = f, duration = d,
                         rotation = randomRotation s (rnd (Suc k1)),
                         frameName = basename f \<rparr>)])))
      else Some (Inr sequence))"

declare planLoop.simps [code]

definition generateTimeline :: "sardonic \<Rightarrow> (nat \<Rightarrow> real) \<Rightarrow> (error + (real \<times> event) list) option" where
  "generateTimeline s rnd = planLoop s rnd 0 0 []"

definition generateSequence :: "sardonic \<Rightarrow> (nat \<Rightarrow> real) \<Rightarrow> (error + event list) option" where
  "generateSequence s rnd = map_option (map_sum id (map snd)) (generateTimeline s rnd)"

subsection \<open>Example instances and draws\<close>

text \<open>The configuration of the end-to-end example: three frames, five seconds, durations in \<open>[1, 2]\<close>.\<close>

definition exampleInstance :: sardonic where
  "exampleInstance =
     (constructor \<lparr> opt_framePattern = None, opt_frameDir = None, opt_output = None,
        opt_size = None, opt_duration = Some 5, opt_maxFrameDuration = Some 2,
        opt_minFrameDuration = Some 1, opt_maxRotation = None, opt_glitchLevel = None \<rparr>)
     \<lparr> frames := [''samples/w-1.jpg'', ''samples/w-2.jpg'', ''samples/w-3.jpg''] \<rparr>"

text \<open>The same instance with the duration bounds the wrong way round: \<open>minDur = 2 > maxDur = 1\<close>.\<close>

definition swappedInstance :: sardonic where
  "swappedInstance = exampleInstance \<lparr> maxFrameDuration := 1, minFrameDuration := 2 \<rparr>"

text \<open>The instance built from no options at all: every field has its default.\<close>

definition defaultInstance :: sardonic where
  "defaultInstance =
     constructor \<lparr> opt_framePattern = None, opt_frameDir = None, opt_output = None,
        opt_size = None, opt_duration = None, opt_maxFrameDuration = None,
        opt_minFrameDuration = None, opt_maxRotation = None, opt_glitchLevel = None \<rparr>"

text \<open>A supply of draws that returns the same number at every call.\<close>

definition constDraws :: "real \<Rightarrow> nat \<Rightarrow> real" where
  "constDraws r i = r"

text \<open>An instance with a negative lower bound, and draws that differ at the first call.\<close>

definition negativeInstance :: sardonic where
  "negativeInstance =
     exampleInstance \<lparr> totalDuration := 3, maxFrameDuration := 2, minFrameDuration := - 2 \<rparr>"

definition firstThenDraws :: "real \<Rightarrow> real \<Rightarrow> nat \<Rightarrow> real" where
  "firstThenDraws a b i = (if i = 0 then a else b)"

subsection \<open>Timing predicates over a timeline\<close>

text \<open>
  \<open>wellTimed s t tl\<close>: played from time \<open>t\<close>, every event of \<open>tl\<close> starts where the one
  before it ended, starts before \<open>totalDuration\<close>, has a positive duration and does not
  overshoot; after the last one no time is left.
\<close>

fun wellTimed :: "sardonic \<Rightarrow> real \<Rightarrow> (real \<times> event) list \<Rightarrow> bool" where
  "wellTimed s t [] = (totalDuration s \<le> t)"
| "wellTimed s t (p # r) =
     (fst p = t \<and> t < totalDuration s \<and> 0 < duration (snd p)
      \<and> t + duration (snd p) \<le> totalDuration s
      \<and> wellTimed s (t + duration (snd p)) r)"

text \<open>
  \<open>withinBounds s tl\<close>: no event is longer than \<open>maxFrameDuration\<close>, and every event but
  the last is at least \<open>minFrameDuration\<close> long.
\<close>

fun withinBounds :: "sardonic \<Rightarrow> (real \<times> event) list \<Rightarrow> bool" where
  "withinBounds s [] = True"
| "withinBounds s (p # r) =
     (duration (snd p) \<le> maxFrameDuration s
      \<and> (r \<noteq> [] \<longrightarrow> minFrameDuration s \<le> duration (snd p))
      \<and> withinBounds s r)"

subsection \<open>Host formatting and division\<close>

text \<open>
  Number formatting is done by the JavaScript host on doubles and is not part of the
  repository: \<^verbatim>\<open>Number.prototype.toString\<close> (also behind template literals) and
  \<^verbatim>\<open>Number.prototype.toFixed\<close> are parameters of the functions that format numbers.
  So is the division under \<^verbatim>\<open>Math.ceil\<close> in \<^verbatim>\<open>overlayOnVideo\<close>: the host rounds the
  quotient to a double before the ceiling is taken, and a rounding onto an integer changes
  the result by one, so that quotient is the host's \<open>divide\<close>, not the exact one.
\<close>

record host =
  toString :: "real \<Rightarrow> string"
  toFixed :: "real \<Rightarrow> nat \<Rightarrow> string"
  divide :: "real \<Rightarrow> real \<Rightarrow> real"

text \<open>
  What the proofs use of the host's division. It rounds the exact quotient to a nearest
  double; rounding is monotone and every multiple of \<open>1/2\<close> of magnitude up to \<open>2^52\<close> is a
  double, so the rounded quotient is never on the other side of such a number than the
  exact quotient. (An overflow to infinity is outside the model.)
\<close>

definition roundsWithinHalves :: "host \<Rightarrow> bool" where
  "roundsWithinHalves h =
     (\<forall>x y k. y \<noteq> 0 \<and> \<bar>k\<bar> \<le> 2 ^ 53 \<longrightarrow>
        (real_of_int k / 2 \<le> x / y \<longrightarrow> real_of_int k / 2 \<le> divide h x y)
        \<and> (x / y \<le> real_of_int k / 2 \<longrightarrow> divide h x y \<le> real_of_int k / 2))"

text \<open>
  A host for examples: it prints every number as the same placeholder and divides exactly.
\<close>

definition placeholderHost :: host where
  "placeholderHost =
     \<lparr> toString = (\<lambda>_. ''N''), toFixed = (\<lambda>_ _. ''N.NNN''), divide = (\<lambda>x y. x / y) \<rparr>"




subsection \<open>createRotatedFrame: the argument list of the raster transform\<close>

definition outputFrame :: "host \<Rightarrow> nat \<Rightarrow> string" where
  "outputFrame h index = ''/tmp/sardonic-'' @ toString h (real index) @ ''.png''"

definition createRotatedFrame_args :: "host \<Rightarrow> sardonic \<Rightarrow> string \<Rightarrow> real \<Rightarrow> nat \<Rightarrow> string list" where
  "createRotatedFrame_args h s inputFrame rot index =
     (let sz = toString h (size' s);
          args = [inputFrame,
                  ''-resize'', sz @ ''x'' @ sz @ ''^'',
                  ''-gravity'', ''center'',
                  ''-extent'', sz @ ''x'' @ sz,
                  ''-background'', ''none'',
                  ''-rotate'', toFixed h rot 2,
                  ''-gravity'', ''center'',
                  ''-extent'', sz @ ''x'' @ sz];
          args = (if glitchLevel s \<ge> 1 then args @ [''-modulate'', ''100,110,100''] else args);
          args = (if glitchLevel s \<ge> 2 then args @ [''-attenuate'', ''0.3'', ''+noise'', ''Impulse''] else args);
          args = (if glitchLevel s \<ge> 3 then args @ [''-channel'', ''R'', ''-evaluate'', ''add'', ''5''] else args)
      in args @ [outputFrame h index])"

subsection \<open>createConcatFile\<close>

record preparedFrame = event +
  rotatedFrame :: string

definition concatPath :: string where
  "concatPath = ''/tmp/sardonic-concat.txt''"

definition fileLine :: "string \<Rightarrow> string" where
  "fileLine handle = ''file '' @ [CHR 0x27] @ handle @ [CHR 0x27, CHR 0x0A]"

definition durationLine :: "host \<Rightarrow> real \<Rightarrow> string" where
  "durationLine h d = ''duration '' @ toFixed h d 3 @ [CHR 0x0A]"

text \<open>
  The file system is a map from paths to contents; \<^verbatim>\<open>fs.writeFileSync\<close> updates it.
  On an empty list \<^verbatim>\<open>preparedFrames[-1]\<close> is \<^verbatim>\<open>undefined\<close> and reading its
  \<^verbatim>\<open>rotatedFrame\<close> throws before anything is written.
\<close>

definition createConcatFile ::
  "host \<Rightarrow> preparedFrame list \<Rightarrow> (string \<rightharpoonup> string) \<Rightarrow> error + (string \<times> (string \<rightharpoonup> string))" where
  "createConcatFile h preparedFrames files =
     (let content = foldl (\<lambda>content item.
                       content @ fileLine (rotatedFrame item) @ durationLine h (duration item))
                     [] preparedFrames
      in if preparedFrames = [] then Inl TypeError
         else (let lastFrame = preparedFrames ! (length preparedFrames - 1);
                   content = content @ fileLine (rotatedFrame lastFrame)
               in Inr (concatPath, files(concatPath \<mapsto> content))))"

text \<open>
  The concat descriptor as the specification words it: an ordered list of entries, each an
  artifact handle with an optional duration, written as a \<^verbatim>\<open>file\<close> line followed, when the
  entry has a duration, by a \<^verbatim>\<open>duration\<close> line.
\<close>

text \<open>Two prepared frames, as \<^verbatim>\<open>prepareFrames\<close> leaves them.\<close>

definition examplePrepared :: "preparedFrame list" where
  "examplePrepared =
     [\<lparr> frame = ''samples/w-1.jpg'', duration = 2, rotation = - 15, frameName = ''w-1.jpg'',
        rotatedFrame = ''/tmp/sardonic-0.png'' \<rparr>,
      \<lparr> frame = ''samples/w-2.jpg'', duration = 3, rotation = 5, frameName = ''w-2.jpg'',
        rotatedFrame = ''/tmp/sardonic-1.png'' \<rparr>]"

type_synonym concatDescriptor = "(string \<times> real option) list"

fun renderEntry :: "host \<Rightarrow> string \<times> real option \<Rightarrow> string" where
  "renderEntry h (handle, Some d) = fileLine handle @ durationLine h d"
| "renderEntry h (handle, None) = fileLine handle"

definition renderDescriptor :: "host \<Rightarrow> concatDescriptor \<Rightarrow> string" where
  "renderDescriptor h entries = concat (map (renderEntry h) entries)"

subsection \<open>buildGlitchFilter\<close>

text \<open>The stage literals of the source, named by the stage they belong to.\<close>

definition formatStage :: string where
  "formatStage = ''format=yuva420p''"

definition scanlineStages :: "string list" where
  "scanlineStages =
     [''split[a][b]'',
      ''[a]geq='r=r(X,Y):g=g(X,Y):b=b(X,Y):a=if(not(mod(Y'' @ [CHR 0x5C] @ '',3))''
        @ [CHR 0x5C] @ '',255'' @ [CHR 0x5C] @ '',a(X,Y))'[scanlines]'',
      ''[b][scanlines]overlay'']"

definition noiseStage :: string where
  "noiseStage = ''noise=alls=10:allf=t+u''"

definition chromaticStages :: "string list" where
  "chromaticStages =
     [''split[main][dup]'',
      ''[dup]lutrgb=r=0:b=0,crop=iw-4:ih:2:0[green]'',
      ''[main][green]overlay=0:0'']"

text \<open>The array \<^verbatim>\<open>filters\<close> after the three conditional pushes.\<close>

definition glitchFilters :: "int \<Rightarrow> string list" where
  "glitchFilters level =
     (let filters = [formatStage];
          filters = (if level \<ge> 1 then filters @ scanlineStages else filters);
          filters = (if level \<ge> 2 then filters @ [noiseStage] else filters);
          filters = (if level \<ge> 3 then filters @ chromaticStages else filters)
      in filters)"

text \<open>\<^verbatim>\<open>Array.prototype.join\<close>.\<close>

fun join :: "string \<Rightarrow> string list \<Rightarrow> string" where
  "join sep [] = []"
| "join sep [x] = x"
| "join sep (x # y # r) = x @ sep @ join sep (y # r)"

definition buildGlitchFilter :: "sardonic \<Rightarrow> string" where
  "buildGlitchFilter s =
     (if glitchLevel s = 0 then ''format=yuva420p''
      else join '','' (glitchFilters (glitchLevel s)))"

subsection \<open>overlayOnVideo\<close>

record overlayOptions =
  ov_position :: "string option"
  ov_margin :: "real option"
  ov_output :: "string option"

text \<open>The coordinates are either expression text for the compositor or the margin itself.\<close>

datatype coord = Expr string | Num real

fun showCoord :: "host \<Rightarrow> coord \<Rightarrow> string" where
  "showCoord h (Expr e) = e"
| "showCoord h (Num n) = toString h n"

text \<open>The \<^verbatim>\<open>switch (position)\<close>: the pair \<open>(x, y)\<close>.\<close>

definition overlayPosition :: "host \<Rightarrow> string \<Rightarrow> real \<Rightarrow> coord \<times> coord" where
  "overlayPosition h position margin =
     (if position = ''bottom-right'' then
        (Expr (''main_w-overlay_w-'' @ toString h margin), Expr (''main_h-overlay_h-'' @ toString h margin))
      else if position = ''bottom-left'' then
        (Num margin, Expr (''main_h-overlay_h-'' @ toString h margin))
      else if position = ''top-right'' then
        (Expr (''main_w-overlay_w-'' @ toString h margin), Num margin)
      else if position = ''top-left'' then
        (Num margin, Num margin)
      else
        (Expr (''main_w-overlay_w-'' @ toString h margin), Expr (''main_h-overlay_h-'' @ toString h margin)))"

text \<open>
  The duration probe either throws, leaving \<^verbatim>\<open>inputDuration\<close> at 0, or gives a number.
\<close>

definition probedDuration :: "real option \<Rightarrow> real" where
  "probedDuration probe = (case probe of None \<Rightarrow> 0 | Some d \<Rightarrow> d)"

text \<open>
  \<^verbatim>\<open>inputDuration > 0 ? Math.ceil(inputDuration / this.totalDuration) : 50\<close>. The quotient
  is the host's; \<^verbatim>\<open>Math.ceil\<close> of a double is exact.
\<close>

definition loopCount :: "host \<Rightarrow> sardonic \<Rightarrow> real \<Rightarrow> int" where
  "loopCount h s inputDuration =
     (if inputDuration > 0 then \<lceil>divide h inputDuration (totalDuration s)\<rceil> else 50)"


text \<open>
  The argument list handed to the compositor: an \<^verbatim>\<open>undefined\<close> element is \<open>None\<close>, and
  \<^verbatim>\<open>.filter(arg => arg !== undefined)\<close> drops exactly those.
\<close>

definition overlayOnVideo_args ::
  "host \<Rightarrow> sardonic \<Rightarrow> string \<Rightarrow> overlayOptions \<Rightarrow> real option \<Rightarrow> string list" where
  "overlayOnVideo_args h s inputVideo opts probe =
     (let position = orStr (ov_position opts) ''bottom-right'';
          margin = orNum (ov_margin opts) 20;
          outputVideo = orStr (ov_output opts) ''output-with-sardonic.mp4'';
          inputDuration = probedDuration probe;
          (x, y) = overlayPosition h position margin;
          loops = loopCount h s inputDuration;
          args = [Some ''-i'', Some inputVideo,
                  Some ''-stream_loop'', Some (toString h (real_of_int (loops - 1))),
                  Some ''-i'', Some (outputFile s),
                  Some ''-filter_complex'',
                  Some (''[0:v]fps=25[base];[1:v]fps=25[overlay];[base][overlay]overlay=''
                        @ showCoord h x @ '':'' @ showCoord h y @ '':shortest=0:format=auto''),
                  Some ''-c:v'', Some ''h264'',
                  Some ''-c:a'', Some ''copy'',
                  Some ''-preset'', Some ''medium'',
                  Some ''-crf'', Some ''23'',
                  Some ''-t'', (if inputDuration > 0 then Some (toString h inputDuration) else None),
                  Some ''-y'',
                  Some outputVideo]
      in map the (filter (\<lambda>arg. arg \<noteq> None) args))"

section \<open>Auxiliary facts about the planner\<close>

subsection \<open>One iteration\<close>

lemma pickFrame_Some:
  assumes "frames s \<noteq> []" "0 \<le> r" "r < 1"
  shows "\<exists>f. pickFrame s r = Some f"
proof -
  let ?n = "real (length (frames s))"
  have n: "0 < ?n" using assms(1) by simp
  have lo: "0 \<le> r * ?n" using assms(2) by simp
  have hi: "r * ?n < ?n" using assms(3) n by simp
  have i0: "0 \<le> \<lfloor>r * ?n\<rfloor>" using lo by simp
  have "\<lfloor>r * ?n\<rfloor> < int (length (frames s))" using hi by (simp add: floor_less_iff)
  with i0 have "nat \<lfloor>r * ?n\<rfloor> < length (frames s)" by linarith
  with i0 show ?thesis by (simp add: pickFrame_def Let_def)
qed

lemma randomDuration_lower:
  assumes "0 \<le> r" "r < 1"
  shows "min (minFrameDuration s) (maxFrameDuration s) \<le> randomDuration s r"
proof -
  let ?mn = "minFrameDuration s" and ?mx = "maxFrameDuration s"
  have conv: "randomDuration s r = (1 - r) * ?mn + r * ?mx"
    by (simp add: randomDuration_def Let_def algebra_simps)
  have "(1 - r) * min ?mn ?mx \<le> (1 - r) * ?mn" using assms by (intro mult_left_mono) simp_all
  moreover have "r * min ?mn ?mx \<le> r * ?mx" using assms by (intro mult_left_mono) simp_all
  ultimately have "(1 - r) * min ?mn ?mx + r * min ?mn ?mx \<le> randomDuration s r"
    unfolding conv by linarith
  then show ?thesis by (simp add: algebra_simps)
qed

lemma randomDuration_upper:
  assumes "0 \<le> r" "r < 1" "minFrameDuration s \<le> maxFrameDuration s"
  shows "randomDuration s r \<le> maxFrameDuration s"
proof -
  let ?mn = "minFrameDuration s" and ?mx = "maxFrameDuration s"
  have conv: "randomDuration s r = (1 - r) * ?mn + r * ?mx"
    by (simp add: randomDuration_def Let_def algebra_simps)
  have "(1 - r) * ?mn \<le> (1 - r) * ?mx" using assms by (intro mult_left_mono) simp_all
  then show ?thesis unfolding conv by (simp add: algebra_simps)
qed

lemma nextDuration_props:
  assumes "ct < totalDuration s" "0 < minFrameDuration s" "0 < maxFrameDuration s"
    "0 \<le> rnd k" "rnd k < 1"
  shows "0 < fst (nextDuration s rnd k ct)"
    and "ct + fst (nextDuration s rnd k ct) \<le> totalDuration s"
    and "ct + fst (nextDuration s rnd k ct) = totalDuration s
         \<or> min (minFrameDuration s) (maxFrameDuration s) \<le> fst (nextDuration s rnd k ct)"
    and "minFrameDuration s \<le> maxFrameDuration s \<Longrightarrow> fst (nextDuration s rnd k ct) \<le> maxFrameDuration s"
    and "minFrameDuration s \<le> maxFrameDuration s \<Longrightarrow> ct + fst (nextDuration s rnd k ct) < totalDuration s
         \<Longrightarrow> minFrameDuration s \<le> fst (nextDuration s rnd k ct)"
proof -
  let ?d = "randomDuration s (rnd k)"
  have lb: "min (minFrameDuration s) (maxFrameDuration s) \<le> ?d"
    using assms(4,5) by (rule randomDuration_lower)
  have pos: "0 < ?d" using lb assms(2,3) by linarith
  show "0 < fst (nextDuration s rnd k ct)"
    using assms(1) pos by (simp add: nextDuration_def Let_def)
  show "ct + fst (nextDuration s rnd k ct) \<le> totalDuration s"
    by (simp add: nextDuration_def Let_def)
  show "ct + fst (nextDuration s rnd k ct) = totalDuration s
         \<or> min (minFrameDuration s) (maxFrameDuration s) \<le> fst (nextDuration s rnd k ct)"
    using lb by (simp add: nextDuration_def Let_def)
  show "fst (nextDuration s rnd k ct) \<le> maxFrameDuration s" if "minFrameDuration s \<le> maxFrameDuration s"
    using randomDuration_upper[OF assms(4,5) that] by (simp add: nextDuration_def Let_def)
  show "minFrameDuration s \<le> fst (nextDuration s rnd k ct)"
    if "minFrameDuration s \<le> maxFrameDuration s" "ct + fst (nextDuration s rnd k ct) < totalDuration s"
    using lb that by (simp add: nextDuration_def Let_def split: if_splits)
qed


subsection \<open>The loop returns, and what it returns\<close>

lemma planLoop_exit: "\<not> ct < totalDuration s \<Longrightarrow> planLoop s rnd k ct sq = Some (Inr sq)"
  by (subst planLoop.simps) simp

lemma planLoop_step:
  assumes "ct < totalDuration s" "nextDuration s rnd k ct = (d, k1)" "pickFrame s (rnd k1) = Some f"
  shows "planLoop s rnd k ct sq =
         planLoop s rnd (Suc (Suc k1)) (ct + d)
           (sq @ [(ct, \<lparr> frame = f, duration = d, rotation = randomRotation s (rnd (Suc k1)),
                          frameName = basename f \<rparr>)])"
  using assms by (subst planLoop.simps) simp

lemma planLoop_returns:
  assumes fr: "frames s \<noteq> []" and rn: "\<forall>i. 0 \<le> rnd i \<and> rnd i < 1"
    and mn: "0 < minFrameDuration s" and mx: "0 < maxFrameDuration s"
  shows "totalDuration s - ct \<le> real n * min (minFrameDuration s) (maxFrameDuration s) \<Longrightarrow>
     \<exists>evs. planLoop s rnd k ct sq = Some (Inr (sq @ evs)) \<and> wellTimed s ct evs
        \<and> (minFrameDuration s \<le> maxFrameDuration s \<longrightarrow> withinBounds s evs)"
proof (induction n arbitrary: k ct sq)
  case 0
  then have "\<not> ct < totalDuration s" by simp
  then have "planLoop s rnd k ct sq = Some (Inr (sq @ [])) \<and> wellTimed s ct []"
    by (simp add: planLoop_exit)
  then show ?case by (intro exI[of _ "[]"]) simp
next
  case (Suc n)
  let ?m = "min (minFrameDuration s) (maxFrameDuration s)"
  have mpos: "0 < ?m" using mn mx by simp
  show ?case
  proof (cases "ct < totalDuration s")
    case False
    then have "planLoop s rnd k ct sq = Some (Inr (sq @ [])) \<and> wellTimed s ct []"
      by (simp add: planLoop_exit)
    then show ?thesis by (intro exI[of _ "[]"]) simp
  next
    case True
    obtain d k1 where nd: "nextDuration s rnd k ct = (d, k1)" by (cases "nextDuration s rnd k ct")
    have r0: "0 \<le> rnd k" and r1: "rnd k < 1" using rn by simp_all
    note P = nextDuration_props[where rnd=rnd and k=k, OF True mn mx r0 r1, unfolded nd fst_conv]
    obtain f where pf: "pickFrame s (rnd k1) = Some f"
      using pickFrame_Some[OF fr, of "rnd k1"] rn by blast
    define e where "e = \<lparr> frame = f, duration = d, rotation = randomRotation s (rnd (Suc k1)),
                          frameName = basename f \<rparr>"
    have de: "duration e = d" by (simp add: e_def)
    have "real n * ?m = real (Suc n) * ?m - ?m" by (simp add: algebra_simps)
    with Suc.prems P(3) mpos have meas: "totalDuration s - (ct + d) \<le> real n * ?m"
      by (cases "ct + d = totalDuration s") auto
    from Suc.IH[OF meas, of "Suc (Suc k1)" "sq @ [(ct, e)]"]
    obtain evs where ih: "planLoop s rnd (Suc (Suc k1)) (ct + d) (sq @ [(ct, e)]) = Some (Inr ((sq @ [(ct, e)]) @ evs))"
      "wellTimed s (ct + d) evs" "minFrameDuration s \<le> maxFrameDuration s \<longrightarrow> withinBounds s evs"
      by blast
    have run: "planLoop s rnd k ct sq = Some (Inr (sq @ (ct, e) # evs))"
      using planLoop_step[OF True nd pf, of sq] ih(1) by (simp add: e_def)
    have wt: "wellTimed s ct ((ct, e) # evs)"
      using True P(1,2) ih(2) by (simp add: de)
    have wb: "withinBounds s ((ct, e) # evs)" if le: "minFrameDuration s \<le> maxFrameDuration s"
    proof -
      have "minFrameDuration s \<le> d" if "evs \<noteq> []"
      proof -
        from that ih(2) have "ct + d < totalDuration s" by (cases evs) simp_all
        with P(5)[OF le] show ?thesis .
      qed
      with P(4)[OF le] ih(3) le show ?thesis by (simp add: de)
    qed
    from run wt wb show ?thesis by blast
  qed
qed

lemma generateTimeline_returns:
  assumes "frames s \<noteq> []" "\<forall>i. 0 \<le> rnd i \<and> rnd i < 1"
    "0 < minFrameDuration s" "0 < maxFrameDuration s"
  shows "\<exists>tl. generateTimeline s rnd = Some (Inr tl) \<and> wellTimed s 0 tl
           \<and> (minFrameDuration s \<le> maxFrameDuration s \<longrightarrow> withinBounds s tl)"
proof -
  let ?m = "min (minFrameDuration s) (maxFrameDuration s)"
  have mpos: "0 < ?m" using assms(3,4) by simp
  obtain n :: nat where "totalDuration s / ?m \<le> real n"
    using real_arch_simple by blast
  with mpos have "totalDuration s - 0 \<le> real n * ?m" by (simp add: pos_divide_le_eq)
  from planLoop_returns[OF assms this, of 0 "[]"] show ?thesis
    by (simp add: generateTimeline_def)
qed

text \<open>Without any assumption on the bounds, a run that returns does not return an error.\<close>

lemma planLoop_no_error:
  assumes run: "planLoop s rnd k ct sq = Some y"
    and fr: "frames s \<noteq> []" and rn: "\<forall>i. 0 \<le> rnd i \<and> rnd i < 1"
  shows "\<exists>tl. y = Inr tl"
proof -
  let ?Q = "\<lambda>(s :: sardonic) (rnd :: nat \<Rightarrow> real) (y :: error + (real \<times> event) list).
              frames s \<noteq> [] \<longrightarrow> (\<forall>i. 0 \<le> rnd i \<and> rnd i < 1) \<longrightarrow> (\<exists>tl. y = Inr tl)"
  have step: "?Q s rnd y"
    if ih: "\<And>s rnd k ct sq y. loop s rnd k ct sq = Some y \<Longrightarrow> ?Q s rnd y"
      and body: "(if ct < totalDuration s then
                    (case nextDuration s rnd k ct of
                       (d, k1) \<Rightarrow>
                         (case pickFrame s (rnd k1) of
                            None \<Rightarrow> Some (Inl TypeError)
                          | Some f \<Rightarrow>
                              loop s rnd (Suc (Suc k1)) (ct + d)
                                (sq @ [(ct, \<lparr> frame = f, duration = d,
                                     rotation = randomRotation s (rnd (Suc k1)),
                                     frameName = basename f \<rparr>)])))
                  else Some (Inr sq)) = Some y"
    for loop s rnd k ct sq y
  proof (intro impI)
    assume fr: "frames s \<noteq> []" and rn: "\<forall>i. 0 \<le> rnd i \<and> rnd i < 1"
    show "\<exists>tl. y = Inr tl"
    proof (cases "ct < totalDuration s")
      case False
      with body show ?thesis by auto
    next
      case True
      obtain d k1 where nd: "nextDuration s rnd k ct = (d, k1)" by (cases "nextDuration s rnd k ct")
      obtain f where pf: "pickFrame s (rnd k1) = Some f"
        using pickFrame_Some[OF fr, of "rnd k1"] rn by blast
      define sq' where "sq' = sq @ [(ct, \<lparr> frame = f, duration = d,
          rotation = randomRotation s (rnd (Suc k1)), frameName = basename f \<rparr>)]"
      from body True nd pf have "loop s rnd (Suc (Suc k1)) (ct + d) sq' = Some y"
        by (simp add: sq'_def)
      from ih[OF this] fr rn show ?thesis by blast
    qed
  qed
  have "?Q s rnd y"
    by (rule planLoop.raw_induct[where P = "\<lambda>s rnd k ct sq y. ?Q s rnd y", OF step run])
  with fr rn show ?thesis by blast
qed

subsection \<open>Consequences of the timing predicates\<close>

lemma wellTimed_sum:
  "wellTimed s t evs \<Longrightarrow> evs \<noteq> [] \<Longrightarrow> t + sum_list (map (\<lambda>p. duration (snd p)) evs) = totalDuration s"
proof (induction evs arbitrary: t)
  case Nil
  then show ?case by simp
next
  case (Cons p r)
  show ?case
  proof (cases r)
    case Nil
    with Cons.prems show ?thesis by simp
  next
    case (Cons q r')
    with Cons.prems Cons.IH[of "t + duration (snd p)"] show ?thesis by simp
  qed
qed

lemma wellTimed_positive: "wellTimed s t evs \<Longrightarrow> p \<in> set evs \<Longrightarrow> 0 < duration (snd p)"
  by (induction evs arbitrary: t) auto

lemma wellTimed_contiguous:
  "wellTimed s t evs \<Longrightarrow> Suc i < length evs \<Longrightarrow> fst (evs ! Suc i) = fst (evs ! i) + duration (snd (evs ! i))"
proof (induction evs arbitrary: t i)
  case Nil
  then show ?case by simp
next
  case (Cons p r)
  show ?case
  proof (cases i)
    case 0
    with Cons.prems show ?thesis by (cases r) simp_all
  next
    case (Suc j)
    with Cons.prems Cons.IH[of "t + duration (snd p)" j] show ?thesis by simp
  qed
qed

lemma wellTimed_last:
  "wellTimed s t evs \<Longrightarrow> evs \<noteq> [] \<Longrightarrow> fst (last evs) + duration (snd (last evs)) = totalDuration s"
proof (induction evs arbitrary: t)
  case Nil
  then show ?case by simp
next
  case (Cons p r)
  show ?case
  proof (cases r)
    case Nil
    with Cons.prems show ?thesis by simp
  next
    case (Cons q r')
    with Cons.prems Cons.IH[of "t + duration (snd p)"] show ?thesis by simp
  qed
qed

lemma withinBounds_upper:
  "withinBounds s evs \<Longrightarrow> sum_list (map (\<lambda>p. duration (snd p)) evs) \<le> real (length evs) * maxFrameDuration s"
  by (induction evs) (auto simp: algebra_simps)

lemma withinBounds_lower:
  "withinBounds s evs \<Longrightarrow> wellTimed s t evs \<Longrightarrow> evs \<noteq> [] \<Longrightarrow>
   real (length evs - 1) * minFrameDuration s < sum_list (map (\<lambda>p. duration (snd p)) evs)"
proof (induction evs arbitrary: t)
  case Nil
  then show ?case by simp
next
  case (Cons p r)
  show ?case
  proof (cases r)
    case Nil
    with Cons.prems show ?thesis by simp
  next
    case (Cons q r')
    with Cons.prems Cons.IH[of "t + duration (snd p)"] show ?thesis by (simp add: algebra_simps)
  qed
qed

section \<open>Auxiliary facts about the descriptor and the filter graph\<close>

lemma foldl_append_acc:
  "foldl (\<lambda>acc x. acc @ g x) acc xs = acc @ concat (map g xs)"
  by (induction xs arbitrary: acc) simp_all

lemma join_glitchFilters_0: "join sep (glitchFilters 0) = ''format=yuva420p''"
  by (simp add: glitchFilters_def formatStage_def)

section \<open>Auxiliary facts about the host's division\<close>

lemma divide_lower_half:
  assumes "roundsWithinHalves h" and "y \<noteq> 0" and "\<bar>k\<bar> \<le> 2 ^ 53"
    and "real_of_int k / 2 \<le> x / y"
  shows "real_of_int k / 2 \<le> divide h x y"
  using assms unfolding roundsWithinHalves_def by blast

lemma divide_upper_half:
  assumes "roundsWithinHalves h" and "y \<noteq> 0" and "\<bar>k\<bar> \<le> 2 ^ 53"
    and "x / y \<le> real_of_int k / 2"
  shows "divide h x y \<le> real_of_int k / 2"
  using assms unfolding roundsWithinHalves_def by blast

section \<open>The claims\<close>

subsection \<open>The planner\<close>

text \<open>
  Claim C1. For a non-empty frame list, \<open>totalDuration > 0\<close> and bounds with
  \<open>0 < minDur \<le> maxDur\<close> (and draws in \<open>[0, 1)\<close>), \<^verbatim>\<open>generateSequence\<close> returns; the first
  event starts at 0, every later event starts where the one before it ended, and the
  durations sum to \<open>totalDuration\<close> exactly, hence within \<open>1e-6\<close>. Numbers are exact reals.
\<close>

theorem generateSequence_contiguous_exact:
  assumes "frames s \<noteq> []" and "0 < totalDuration s"
    and "0 < minFrameDuration s" and "minFrameDuration s \<le> maxFrameDuration s"
    and "\<forall>i. 0 \<le> rnd i \<and> rnd i < 1"
  shows "\<exists>tl. generateTimeline s rnd = Some (Inr tl)
           \<and> generateSequence s rnd = Some (Inr (map snd tl))
           \<and> tl \<noteq> [] \<and> fst (hd tl) = 0
           \<and> (\<forall>i. Suc i < length tl \<longrightarrow> fst (tl ! Suc i) = fst (tl ! i) + duration (snd (tl ! i)))
           \<and> sum_list (map duration (map snd tl)) = totalDuration s
           \<and> \<bar>sum_list (map duration (map snd tl)) - totalDuration s\<bar> \<le> 1 / 10 ^ 6"
proof -
  have mx: "0 < maxFrameDuration s" using assms(3,4) by linarith
  from generateTimeline_returns[OF assms(1,5,3) mx]
  obtain tl where tl: "generateTimeline s rnd = Some (Inr tl)" "wellTimed s 0 tl" by blast
  have ne: "tl \<noteq> []" using tl(2) assms(2) by (cases tl) simp_all
  have hd0: "fst (hd tl) = 0" using tl(2) ne by (cases tl) simp_all
  have sm: "sum_list (map duration (map snd tl)) = totalDuration s"
    using wellTimed_sum[OF tl(2) ne] by (simp add: comp_def)
  have seq: "generateSequence s rnd = Some (Inr (map snd tl))"
    by (simp add: generateSequence_def tl(1))
  have cont: "\<forall>i. Suc i < length tl \<longrightarrow> fst (tl ! Suc i) = fst (tl ! i) + duration (snd (tl ! i))"
    using wellTimed_contiguous[OF tl(2)] by blast
  from tl(1) seq ne hd0 cont sm show ?thesis by simp
qed

text \<open>The theorem of claim C1 at the example instance, every draw being 1/2.\<close>

theorem generateSequence_contiguous_exact_witness:
  "frames exampleInstance \<noteq> [] \<and> 0 < totalDuration exampleInstance
   \<and> 0 < minFrameDuration exampleInstance
   \<and> minFrameDuration exampleInstance \<le> maxFrameDuration exampleInstance
   \<and> (\<forall>i. 0 \<le> constDraws (1 / 2) i \<and> constDraws (1 / 2) i < 1)
   \<and> (\<exists>tl. generateTimeline exampleInstance (constDraws (1 / 2)) = Some (Inr tl)
           \<and> generateSequence exampleInstance (constDraws (1 / 2)) = Some (Inr (map snd tl))
           \<and> tl \<noteq> [] \<and> fst (hd tl) = 0
           \<and> (\<forall>i. Suc i < length tl \<longrightarrow> fst (tl ! Suc i) = fst (tl ! i) + duration (snd (tl ! i)))
           \<and> sum_list (map duration (map snd tl)) = totalDuration exampleInstance
           \<and> \<bar>sum_list (map duration (map snd tl)) - totalDuration exampleInstance\<bar> \<le> 1 / 10 ^ 6)"
  using generateSequence_contiguous_exact[of exampleInstance "constDraws (1 / 2)"]
  by (simp add: exampleInstance_def constructor_def orNum_def orStr_def constDraws_def)

text \<open>
  Claim C5, as the code has it. The claim asks for a \<^verbatim>\<open>ConfigurationError\<close> when
  \<open>minDur \<le> 0\<close> or \<open>minDur > maxDur\<close>; the code checks neither. With \<open>minDur = 2\<close> and
  \<open>maxDur = 1\<close> it returns three events.
\<close>

theorem invalid_bounds_not_rejected:
  "maxFrameDuration swappedInstance < minFrameDuration swappedInstance
   \<and> generateSequence swappedInstance (constDraws 0) =
       Some (Inr [\<lparr> frame = ''samples/w-1.jpg'', duration = 2, rotation = - 15, frameName = ''w-1.jpg'' \<rparr>,
                  \<lparr> frame = ''samples/w-1.jpg'', duration = 2, rotation = - 15, frameName = ''w-1.jpg'' \<rparr>,
                  \<lparr> frame = ''samples/w-1.jpg'', duration = 1, rotation = - 15, frameName = ''w-1.jpg'' \<rparr>])"
  by (simp add: generateSequence_def generateTimeline_def planLoop.simps nextDuration_def
      randomDuration_def randomRotation_def pickFrame_def basename_def swappedInstance_def
      exampleInstance_def constructor_def orNum_def orStr_def constDraws_def)

text \<open>
  Claim C5, amended. With a non-empty frame list and draws in \<open>[0, 1)\<close>, the planner never
  fails with an error, whatever the duration bounds are; and with \<open>0 < maxDur < minDur\<close>
  and \<open>totalDuration > 0\<close> it returns a non-empty sequence whose durations sum to
  \<open>totalDuration\<close>.
\<close>

theorem generateSequence_no_validation:
  assumes "frames s \<noteq> []" and "\<forall>i. 0 \<le> rnd i \<and> rnd i < 1"
  shows "(\<forall>e. generateSequence s rnd \<noteq> Some (Inl e))
         \<and> (0 < maxFrameDuration s \<and> maxFrameDuration s < minFrameDuration s \<and> 0 < totalDuration s
              \<longrightarrow> (\<exists>evs. generateSequence s rnd = Some (Inr evs) \<and> evs \<noteq> []
                          \<and> sum_list (map duration evs) = totalDuration s))"
proof (intro conjI allI impI)
  fix e
  show "generateSequence s rnd \<noteq> Some (Inl e)"
  proof
    assume "generateSequence s rnd = Some (Inl e)"
    then obtain y where y: "planLoop s rnd 0 0 [] = Some y" "map_sum id (map snd) y = Inl e"
      by (auto simp: generateSequence_def generateTimeline_def)
    from planLoop_no_error[OF y(1) assms] y(2) show False by auto
  qed
next
  assume h: "0 < maxFrameDuration s \<and> maxFrameDuration s < minFrameDuration s \<and> 0 < totalDuration s"
  then have mn: "0 < minFrameDuration s" and mx: "0 < maxFrameDuration s" by simp_all
  from generateTimeline_returns[OF assms mn mx]
  obtain tl where tl: "generateTimeline s rnd = Some (Inr tl)" "wellTimed s 0 tl" by blast
  have ne: "tl \<noteq> []" using tl(2) h by (cases tl) simp_all
  have "sum_list (map duration (map snd tl)) = totalDuration s"
    using wellTimed_sum[OF tl(2) ne] by (simp add: comp_def)
  moreover have "generateSequence s rnd = Some (Inr (map snd tl))"
    by (simp add: generateSequence_def tl(1))
  ultimately show "\<exists>evs. generateSequence s rnd = Some (Inr evs) \<and> evs \<noteq> []
                          \<and> sum_list (map duration evs) = totalDuration s"
    using ne by auto
qed

text \<open>The amended claim C5 at the instance with swapped bounds, every draw being 0.\<close>

theorem generateSequence_no_validation_witness:
  "frames swappedInstance \<noteq> [] \<and> (\<forall>i. 0 \<le> constDraws 0 i \<and> constDraws 0 i < 1)
   \<and> 0 < maxFrameDuration swappedInstance
   \<and> maxFrameDuration swappedInstance < minFrameDuration swappedInstance
   \<and> 0 < totalDuration swappedInstance
   \<and> (\<forall>e. generateSequence swappedInstance (constDraws 0) \<noteq> Some (Inl e))
   \<and> (\<exists>evs. generateSequence swappedInstance (constDraws 0) = Some (Inr evs) \<and> evs \<noteq> []
           \<and> sum_list (map duration evs) = totalDuration swappedInstance)"
  using generateSequence_no_validation[of swappedInstance "constDraws 0"]
  by (simp add: swappedInstance_def exampleInstance_def constructor_def orNum_def orStr_def constDraws_def)

text \<open>
  Claim C6, as the code has it. The planner accepts every input (it checks no bound), and
  with \<open>minDur = -2\<close>, \<open>maxDur = 2\<close>, \<open>totalDuration = 3\<close>, a first draw of 1/4 and 3/4
  afterwards, it returns four events, the first with the duration \<open>-1\<close>.
\<close>

theorem negative_bound_gives_negative_duration:
  "generateSequence negativeInstance (firstThenDraws (1 / 4) (3 / 4)) =
     Some (Inr [\<lparr> frame = ''samples/w-3.jpg'', duration = - 1, rotation = 15 / 2, frameName = ''w-3.jpg'' \<rparr>,
                \<lparr> frame = ''samples/w-3.jpg'', duration = 1, rotation = 15 / 2, frameName = ''w-3.jpg'' \<rparr>,
                \<lparr> frame = ''samples/w-3.jpg'', duration = 1, rotation = 15 / 2, frameName = ''w-3.jpg'' \<rparr>,
                \<lparr> frame = ''samples/w-3.jpg'', duration = 2, rotation = 15 / 2, frameName = ''w-3.jpg'' \<rparr>])"
  by (simp add: generateSequence_def generateTimeline_def planLoop.simps nextDuration_def
      randomDuration_def randomRotation_def pickFrame_def basename_def negativeInstance_def
      exampleInstance_def constructor_def orNum_def orStr_def firstThenDraws_def)

text \<open>
  Claim C6, amended. For every input with a non-empty frame list, \<open>minDur > 0\<close> and
  \<open>maxDur > 0\<close> (and draws in \<open>[0, 1)\<close>), the planner returns and every event's duration is
  strictly positive.
\<close>

theorem generateSequence_durations_positive:
  assumes "frames s \<noteq> []" and "0 < minFrameDuration s" and "0 < maxFrameDuration s"
    and "\<forall>i. 0 \<le> rnd i \<and> rnd i < 1"
  shows "\<exists>evs. generateSequence s rnd = Some (Inr evs) \<and> (\<forall>e \<in> set evs. 0 < duration e)"
proof -
  from generateTimeline_returns[OF assms(1,4,2,3)]
  obtain tl where tl: "generateTimeline s rnd = Some (Inr tl)" "wellTimed s 0 tl" by blast
  have "generateSequence s rnd = Some (Inr (map snd tl))"
    by (simp add: generateSequence_def tl(1))
  moreover have "\<forall>e \<in> set (map snd tl). 0 < duration e"
    using wellTimed_positive[OF tl(2)] by auto
  ultimately show ?thesis by blast
qed

text \<open>The amended claim C6 at the example instance, every draw being 1/2.\<close>

theorem generateSequence_durations_positive_witness:
  "frames exampleInstance \<noteq> [] \<and> 0 < minFrameDuration exampleInstance
   \<and> 0 < maxFrameDuration exampleInstance
   \<and> (\<forall>i. 0 \<le> constDraws (1 / 2) i \<and> constDraws (1 / 2) i < 1)
   \<and> (\<exists>evs. generateSequence exampleInstance (constDraws (1 / 2)) = Some (Inr evs)
           \<and> (\<forall>e \<in> set evs. 0 < duration e))"
  using generateSequence_durations_positive[of exampleInstance "constDraws (1 / 2)"]
  by (simp add: exampleInstance_def constructor_def orNum_def orStr_def constDraws_def)

text \<open>
  Claim C7. With three frames, \<open>totalDuration = 5\<close>, \<open>minDur = 1\<close> and \<open>maxDur = 2\<close>, any
  draws in \<open>[0, 1)\<close> give between 3 and 5 events, and the last event's start time plus
  its duration is 5.
\<close>

theorem endToEnd_count_and_end:
  assumes "length (frames s) = 3" and "totalDuration s = 5"
    and "minFrameDuration s = 1" and "maxFrameDuration s = 2"
    and "\<forall>i. 0 \<le> rnd i \<and> rnd i < 1"
  shows "\<exists>tl. generateTimeline s rnd = Some (Inr tl)
           \<and> generateSequence s rnd = Some (Inr (map snd tl))
           \<and> 3 \<le> length (map snd tl) \<and> length (map snd tl) \<le> 5
           \<and> fst (last tl) + duration (snd (last tl)) = 5"
proof -
  have fr: "frames s \<noteq> []" using assms(1) by auto
  have mn: "0 < minFrameDuration s" and mx: "0 < maxFrameDuration s"
    and le: "minFrameDuration s \<le> maxFrameDuration s"
    using assms(3,4) by simp_all
  from generateTimeline_returns[OF fr assms(5) mn mx] le
  obtain tl where tl: "generateTimeline s rnd = Some (Inr tl)" "wellTimed s 0 tl" "withinBounds s tl"
    by blast
  have ne: "tl \<noteq> []" using tl(2) assms(2) by (cases tl) simp_all
  have sm: "sum_list (map (\<lambda>p. duration (snd p)) tl) = 5"
    using wellTimed_sum[OF tl(2) ne] assms(2) by simp
  have "5 \<le> real (length tl) * 2"
    using withinBounds_upper[OF tl(3)] sm assms(4) by simp
  then have lo: "3 \<le> length tl" by linarith
  have "real (length tl - 1) < 5"
    using withinBounds_lower[OF tl(3) tl(2) ne] sm assms(3) by simp
  then have hi: "length tl \<le> 5" by linarith
  have seq: "generateSequence s rnd = Some (Inr (map snd tl))"
    by (simp add: generateSequence_def tl(1))
  have "fst (last tl) + duration (snd (last tl)) = 5"
    using wellTimed_last[OF tl(2) ne] assms(2) by simp
  with tl(1) seq lo hi show ?thesis by simp
qed

text \<open>The theorem of claim C7 at the example instance, every draw being 1/2.\<close>

theorem endToEnd_count_and_end_witness:
  "length (frames exampleInstance) = 3 \<and> totalDuration exampleInstance = 5
   \<and> minFrameDuration exampleInstance = 1 \<and> maxFrameDuration exampleInstance = 2
   \<and> (\<forall>i. 0 \<le> constDraws (1 / 2) i \<and> constDraws (1 / 2) i < 1)
   \<and> (\<exists>tl. generateTimeline exampleInstance (constDraws (1 / 2)) = Some (Inr tl)
           \<and> generateSequence exampleInstance (constDraws (1 / 2)) = Some (Inr (map snd tl))
           \<and> 3 \<le> length (map snd tl) \<and> length (map snd tl) \<le> 5
           \<and> fst (last tl) + duration (snd (last tl)) = 5)"
  using endToEnd_count_and_end[of exampleInstance "constDraws (1 / 2)"]
  by (simp add: exampleInstance_def constructor_def orNum_def orStr_def constDraws_def)

subsection \<open>The effect pipeline\<close>

text \<open>
  Claim C2. For every level \<open>k\<close> in \<open>[1, 3]\<close>, the stage list of level \<open>k - 1\<close> is a prefix,
  hence a subsequence in the same order, of the stage list of level \<open>k\<close>; the stages come
  in the fixed order format, scanlines, noise, chromatic shift; and the filter string
  returned at either level is its stage list joined by commas.
\<close>

theorem glitchFilters_layered:
  assumes "1 \<le> k" and "k \<le> 3"
  shows "prefix (glitchFilters (k - 1)) (glitchFilters k)
         \<and> subseq (glitchFilters (k - 1)) (glitchFilters k)
         \<and> glitchFilters k =
             [formatStage] @ scanlineStages @ (if 2 \<le> k then [noiseStage] else [])
               @ (if 3 \<le> k then chromaticStages else [])
         \<and> prefix (glitchFilters k) ([formatStage] @ scanlineStages @ [noiseStage] @ chromaticStages)
         \<and> buildGlitchFilter (s\<lparr>glitchLevel := k\<rparr>) = join '','' (glitchFilters k)
         \<and> buildGlitchFilter (s\<lparr>glitchLevel := k - 1\<rparr>) = join '','' (glitchFilters (k - 1))"
proof -
  from assms have "k = 1 \<or> k = 2 \<or> k = 3" by linarith
  then have pre: "prefix (glitchFilters (k - 1)) (glitchFilters k)"
    by (auto simp: glitchFilters_def)
  then have sub: "subseq (glitchFilters (k - 1)) (glitchFilters k)"
    by (rule prefix_imp_subseq)
  have shape: "glitchFilters k =
             [formatStage] @ scanlineStages @ (if 2 \<le> k then [noiseStage] else [])
               @ (if 3 \<le> k then chromaticStages else [])"
    using assms by (simp add: glitchFilters_def)
  have full: "prefix (glitchFilters k) ([formatStage] @ scanlineStages @ [noiseStage] @ chromaticStages)"
    unfolding shape by simp
  have b1: "buildGlitchFilter (s\<lparr>glitchLevel := k\<rparr>) = join '','' (glitchFilters k)"
    using assms by (simp add: buildGlitchFilter_def)
  have b0: "buildGlitchFilter (s\<lparr>glitchLevel := k - 1\<rparr>) = join '','' (glitchFilters (k - 1))"
    using join_glitchFilters_0 by (simp add: buildGlitchFilter_def)
  from pre sub shape full b1 b0 show ?thesis by blast
qed

text \<open>The theorem of claim C2 at level 2.\<close>

theorem glitchFilters_layered_witness:
  "(1::int) \<le> 2 \<and> (2::int) \<le> 3
   \<and> prefix (glitchFilters (2 - 1)) (glitchFilters 2)
   \<and> subseq (glitchFilters (2 - 1)) (glitchFilters 2)
   \<and> glitchFilters 2 =
       [formatStage] @ scanlineStages @ (if (2::int) \<le> 2 then [noiseStage] else [])
         @ (if (3::int) \<le> 2 then chromaticStages else [])
   \<and> prefix (glitchFilters 2) ([formatStage] @ scanlineStages @ [noiseStage] @ chromaticStages)
   \<and> buildGlitchFilter (defaultInstance\<lparr>glitchLevel := 2\<rparr>) = join '','' (glitchFilters 2)
   \<and> buildGlitchFilter (defaultInstance\<lparr>glitchLevel := 2 - 1\<rparr>) = join '','' (glitchFilters (2 - 1))"
proof -
  have h: "(1::int) \<le> 2" "(2::int) \<le> 3" by simp_all
  from h glitchFilters_layered[OF h, of defaultInstance] show ?thesis by blast
qed

text \<open>
  Claim C10. A level below 0 gives the filter string and the per-frame argument list of
  level 0, and a level above 3 gives those of level 3.
\<close>

theorem glitchLevel_clamps:
  "(l < 0 \<longrightarrow>
      buildGlitchFilter (s\<lparr>glitchLevel := l\<rparr>) = buildGlitchFilter (s\<lparr>glitchLevel := 0\<rparr>)
      \<and> createRotatedFrame_args h (s\<lparr>glitchLevel := l\<rparr>) inputFrame rot index
          = createRotatedFrame_args h (s\<lparr>glitchLevel := 0\<rparr>) inputFrame rot index)
   \<and> (3 < u \<longrightarrow>
      buildGlitchFilter (s\<lparr>glitchLevel := u\<rparr>) = buildGlitchFilter (s\<lparr>glitchLevel := 3\<rparr>)
      \<and> createRotatedFrame_args h (s\<lparr>glitchLevel := u\<rparr>) inputFrame rot index
          = createRotatedFrame_args h (s\<lparr>glitchLevel := 3\<rparr>) inputFrame rot index)"
  by (simp add: buildGlitchFilter_def glitchFilters_def createRotatedFrame_args_def Let_def formatStage_def)

text \<open>The theorem of claim C10 at the levels -2 and 7.\<close>

theorem glitchLevel_clamps_witness:
  "(- 2 :: int) < 0 \<and> (3 :: int) < 7
   \<and> buildGlitchFilter (defaultInstance\<lparr>glitchLevel := - 2\<rparr>) = buildGlitchFilter (defaultInstance\<lparr>glitchLevel := 0\<rparr>)
   \<and> createRotatedFrame_args placeholderHost (defaultInstance\<lparr>glitchLevel := - 2\<rparr>) ''samples/w-1.jpg'' 5 0
       = createRotatedFrame_args placeholderHost (defaultInstance\<lparr>glitchLevel := 0\<rparr>) ''samples/w-1.jpg'' 5 0
   \<and> buildGlitchFilter (defaultInstance\<lparr>glitchLevel := 7\<rparr>) = buildGlitchFilter (defaultInstance\<lparr>glitchLevel := 3\<rparr>)
   \<and> createRotatedFrame_args placeholderHost (defaultInstance\<lparr>glitchLevel := 7\<rparr>) ''samples/w-1.jpg'' 5 0
       = createRotatedFrame_args placeholderHost (defaultInstance\<lparr>glitchLevel := 3\<rparr>) ''samples/w-1.jpg'' 5 0"
  using glitchLevel_clamps[of "- 2" defaultInstance placeholderHost "''samples/w-1.jpg''" 5 0 7]
  by simp

subsection \<open>The concat descriptor\<close>

text \<open>
  Claim C3. For a non-empty list of \<open>n\<close> prepared frames, the file written by
  \<^verbatim>\<open>createConcatFile\<close> is the text of a descriptor with exactly \<open>n + 1\<close> entries: entry
  \<open>i < n\<close> pairs the artifact handle of frame \<open>i\<close> with its duration, and the final entry
  repeats the handle of frame \<open>n - 1\<close> and has no duration.
\<close>

theorem createConcatFile_entries:
  assumes "preparedFrames \<noteq> []"
  shows "\<exists>entries.
           createConcatFile h preparedFrames files
             = Inr (concatPath, files(concatPath \<mapsto> renderDescriptor h entries))
           \<and> length entries = length preparedFrames + 1
           \<and> (\<forall>i < length preparedFrames.
                 entries ! i = (rotatedFrame (preparedFrames ! i), Some (duration (preparedFrames ! i))))
           \<and> entries ! length preparedFrames
                 = (rotatedFrame (preparedFrames ! (length preparedFrames - 1)), None)"
proof -
  let ?n = "length preparedFrames"
  let ?pairs = "map (\<lambda>item. (rotatedFrame item, Some (duration item))) preparedFrames"
  let ?entries = "?pairs @ [(rotatedFrame (preparedFrames ! (?n - 1)), None)]"
  have body: "concat (map (renderEntry h) ?pairs)
              = concat (map (\<lambda>item. fileLine (rotatedFrame item) @ durationLine h (duration item)) preparedFrames)"
    by (simp add: comp_def)
  have "createConcatFile h preparedFrames files
          = Inr (concatPath, files(concatPath \<mapsto> renderDescriptor h ?entries))"
    using assms
    by (simp add: createConcatFile_def Let_def renderDescriptor_def foldl_append_acc[where g = "\<lambda>item. fileLine (rotatedFrame item) @ durationLine h (duration item)"] body del: map_map)
  moreover have "length ?entries = ?n + 1" by simp
  moreover have "\<forall>i < ?n. ?entries ! i = (rotatedFrame (preparedFrames ! i), Some (duration (preparedFrames ! i)))"
    by (simp add: nth_append)
  moreover have "?entries ! ?n = (rotatedFrame (preparedFrames ! (?n - 1)), None)"
    by (simp add: nth_append)
  ultimately show ?thesis by blast
qed

text \<open>The theorem of claim C3 at the two example frames.\<close>

theorem createConcatFile_entries_witness:
  "examplePrepared \<noteq> []
   \<and> (\<exists>entries.
         createConcatFile placeholderHost examplePrepared Map.empty
           = Inr (concatPath, Map.empty(concatPath \<mapsto> renderDescriptor placeholderHost entries))
         \<and> length entries = length examplePrepared + 1
         \<and> (\<forall>i < length examplePrepared.
               entries ! i = (rotatedFrame (examplePrepared ! i), Some (duration (examplePrepared ! i))))
         \<and> entries ! length examplePrepared
               = (rotatedFrame (examplePrepared ! (length examplePrepared - 1)), None))"
proof -
  have ne: "examplePrepared \<noteq> []" by (simp add: examplePrepared_def)
  from ne createConcatFile_entries[OF ne, of placeholderHost Map.empty] show ?thesis by blast
qed

subsection \<open>The overlay compositor\<close>



text \<open>
  How far the count can be from the ceiling of the exact quotient: never above it, and
  below it by one exactly when the double quotient was rounded down onto an integer.
\<close>

lemma loopCount_near_exact_ceiling:
  assumes r: "roundsWithinHalves h" and c: "0 < totalDuration s" and t: "0 < t"
    and b: "\<lceil>t / totalDuration s\<rceil> \<le> 2 ^ 52"
  shows "\<lceil>t / totalDuration s\<rceil> - 1 \<le> loopCount h s (probedDuration (Some t))
         \<and> loopCount h s (probedDuration (Some t)) \<le> \<lceil>t / totalDuration s\<rceil>"
proof -
  let ?q = "t / totalDuration s" and ?d = "divide h t (totalDuration s)"
  let ?n = "\<lceil>?q\<rceil>"
  have y: "totalDuration s \<noteq> 0" using c by simp
  have q0: "0 < ?q" using c t by simp
  then have n0: "0 < ?n" by simp
  have k1: "\<bar>2 * ?n\<bar> \<le> 2 ^ 53" using b n0 by simp
  have k2: "\<bar>2 * (?n - 1)\<bar> \<le> 2 ^ 53" using b n0 by simp
  have e1: "real_of_int (2 * ?n) / 2 = real_of_int ?n" by simp
  have e2: "real_of_int (2 * (?n - 1)) / 2 = real_of_int (?n - 1)" by simp
  have "?q \<le> real_of_int (2 * ?n) / 2" unfolding e1 by (rule le_of_int_ceiling)
  from divide_upper_half[OF r y k1 this] have up: "?d \<le> real_of_int ?n" unfolding e1 .
  have "real_of_int (?n - 1) < ?q" by linarith
  then have "real_of_int (2 * (?n - 1)) / 2 \<le> ?q" unfolding e2 by (rule less_imp_le)
  from divide_lower_half[OF r y k2 this] have lo: "real_of_int (?n - 1) \<le> ?d" unfolding e2 .
  from up have "\<lceil>?d\<rceil> \<le> ?n" by (simp add: ceiling_le_iff)
  moreover from lo have "?n - 1 \<le> \<lceil>?d\<rceil>" by (simp add: le_ceiling_iff)
  ultimately show ?thesis using t by (simp add: loopCount_def probedDuration_def)
qed




text \<open>
  Claim C9. When the probe failed (or gave 0), the argument list still contains
  \<^verbatim>\<open>-t\<close>: only its \<^verbatim>\<open>undefined\<close> value is dropped, so \<^verbatim>\<open>-t\<close> is followed at once
  by \<^verbatim>\<open>-y\<close> and the output file, after the sixteen arguments before it.
\<close>

theorem overlayOnVideo_args_unknown_duration:
  "(\<exists>pre. overlayOnVideo_args h s inputVideo opts None
            = pre @ [''-t'', ''-y'', orStr (ov_output opts) ''output-with-sardonic.mp4'']
          \<and> length pre = 16)
   \<and> (\<exists>pre. overlayOnVideo_args h s inputVideo opts (Some 0)
            = pre @ [''-t'', ''-y'', orStr (ov_output opts) ''output-with-sardonic.mp4'']
          \<and> length pre = 16)"
  by (simp add: overlayOnVideo_args_def probedDuration_def Let_def split: prod.splits)

end
